theory Spec2Isabelle
  imports Main "HOL-Library.Sublist"
begin

section \<open>Python values and their rendering\<close>

text \<open>
  The client of \<^verbatim>\<open>wcl.py\<close> interpolates caller-supplied Python values into
  f-strings and passes dictionary values through \<^verbatim>\<open>str(value)\<close>. The values
  modelled are strings, integers, booleans and \<^verbatim>\<open>None\<close>; a string is a list
  of bytes. Floating-point values are not modelled.
\<close>

datatype pyval = PyStr string | PyInt int | PyBool bool | PyNone

definition digit_char :: "nat \<Rightarrow> char" where
  "digit_char d = ''0123456789'' ! d"

text \<open>Decimal digits of a natural number, most significant first.\<close>

fun str_nat :: "nat \<Rightarrow> string" where
  "str_nat n = (if n < 10 then [digit_char n] else str_nat (n div 10) @ [digit_char (n mod 10)])"

declare str_nat.simps [simp del]

definition str_int :: "int \<Rightarrow> string" where
  "str_int i = (if i < 0 then CHR ''-'' # str_nat (nat (- i)) else str_nat (nat i))"

text \<open>Python's \<^verbatim>\<open>str(value)\<close>, which is also what an f-string placeholder
  \<^verbatim>\<open>{value}\<close> inserts for these types.\<close>

fun str :: "pyval \<Rightarrow> string" where
  "str (PyStr s) = s"
| "str (PyInt i) = str_int i"
| "str (PyBool b) = (if b then ''True'' else ''False'')"
| "str PyNone = ''None''"

section \<open>The optional-parameter mapping\<close>

text \<open>
  A \<^verbatim>\<open>dict\<close> iterates in insertion order, so the mapping is an association
  list in that order. Keys are strings: \<^verbatim>\<open>'&' + key\<close> is string
  concatenation, defined for string keys only.
\<close>

type_synonym params = "(string \<times> pyval) list"

text \<open>
  \<^verbatim>\<open>
  paramstring = ''
  for key, value in params.items():
      paramstring = paramstring + '&' + key + '=' + str(value)
  return paramstring[1:]
  \<close>
  The loop, with \<open>paramstring\<close> as accumulator, and the slice \<^verbatim>\<open>[1:]\<close>,
  which is \<open>drop 1\<close> (and the empty string on the empty string).
\<close>

fun format_params_loop :: "string \<Rightarrow> params \<Rightarrow> string" where
  "format_params_loop paramstring [] = paramstring"
| "format_params_loop paramstring ((key, val) # rest) =
     format_params_loop (paramstring @ ''&'' @ key @ ''='' @ str val) rest"

definition format_params :: "params \<Rightarrow> string" where
  "format_params params = drop 1 (format_params_loop [] params)"

section \<open>The client and the library it calls\<close>

text \<open>
  The class attributes of \<^verbatim>\<open>WCL\<close>. In the source \<open>request_uri\<close> is the
  literal below and \<open>api_key\<close> is read once from the configuration, when the class
  is defined.
\<close>

record WCL =
  request_uri :: string
  api_key :: string

definition WCL_class :: "string \<Rightarrow> WCL" where
  "WCL_class configured_key =
     \<lparr>request_uri = ''https://classic.warcraftlogs.com:443/v1'', api_key = configured_key\<rparr>"

text \<open>
  The two calls into the \<^verbatim>\<open>requests\<close> library, which is not part of the
  repository: \<^verbatim>\<open>requests.get(uri)\<close> returns a response or raises, and
  \<^verbatim>\<open>response.json()\<close> returns the decoded body or raises. Both are
  parameters of the model; \<open>'x\<close> and \<open>'y\<close> are the exceptions they raise, \<open>'r\<close>
  the responses and \<open>'j\<close> the decoded JSON values.
\<close>

record ('x, 'r, 'y, 'j) requests =
  get :: "string \<Rightarrow> 'x + 'r"
  json :: "'r \<Rightarrow> 'y + 'j"

text \<open>
  The client raises nothing of its own and catches nothing: an operation fails exactly
  when one of the two library calls raises, and the exception propagates to the caller
  unchanged.
\<close>

datatype ('x, 'y) failure = Get_raised 'x | Json_raised 'y

text \<open>
  What a call can observe or change: the client's attributes and the GET requests
  issued so far (the URIs passed to \<^verbatim>\<open>requests.get\<close>, oldest first).
\<close>

record state =
  self :: WCL
  issued :: "string list"

text \<open>
  \<^verbatim>\<open>
  response = requests.get(uri)
  return response.json()
  \<close>
\<close>

definition make_request ::
  "('x, 'r, 'y, 'j) requests \<Rightarrow> string \<Rightarrow> state \<Rightarrow> (('x, 'y) failure + 'j) \<times> state" where
  "make_request lib uri s =
     (let s' = s\<lparr>issued := issued s @ [uri]\<rparr> in
      case get lib uri of
        Inl x \<Rightarrow> (Inl (Get_raised x), s')
      | Inr response \<Rightarrow>
          (case json lib response of
             Inl y \<Rightarrow> (Inl (Json_raised y), s')
           | Inr v \<Rightarrow> (Inr v, s')))"

subsection \<open>The URI of each operation\<close>

text \<open>Each definition is the f-string of the method of the same name.\<close>

definition get_zone_list_uri :: "WCL \<Rightarrow> string" where
  "get_zone_list_uri w = request_uri w @ ''/zones&api_key='' @ api_key w"

definition get_class_list_uri :: "WCL \<Rightarrow> string" where
  "get_class_list_uri w = request_uri w @ ''/classes&api_key='' @ api_key w"

definition get_rankings_list_encounter_uri :: "WCL \<Rightarrow> pyval \<Rightarrow> params \<Rightarrow> string" where
  "get_rankings_list_encounter_uri w encounterID params =
     request_uri w @ ''/rankings/encounter/'' @ str encounterID @ ''?'' @ format_params params
       @ ''&api_key='' @ api_key w"

definition get_rankings_list_character_uri ::
  "WCL \<Rightarrow> pyval \<Rightarrow> pyval \<Rightarrow> pyval \<Rightarrow> params \<Rightarrow> string" where
  "get_rankings_list_character_uri w characterName serverName serverRegion params =
     request_uri w @ ''/rankings/character/'' @ str characterName @ ''/'' @ str serverName
       @ ''/'' @ str serverRegion @ ''?'' @ format_params params @ ''&api_key='' @ api_key w"

definition get_parses_list_character_uri ::
  "WCL \<Rightarrow> pyval \<Rightarrow> pyval \<Rightarrow> pyval \<Rightarrow> params \<Rightarrow> string" where
  "get_parses_list_character_uri w characterName serverName serverRegion params =
     request_uri w @ ''/parses/character/'' @ str characterName @ ''/'' @ str serverName
       @ ''/'' @ str serverRegion @ ''?'' @ format_params params @ ''&api_key='' @ api_key w"

definition get_reports_list_guild_uri ::
  "WCL \<Rightarrow> pyval \<Rightarrow> pyval \<Rightarrow> pyval \<Rightarrow> params \<Rightarrow> string" where
  "get_reports_list_guild_uri w guildName serverName serverRegion params =
     request_uri w @ ''/reports/guild/'' @ str guildName @ ''/'' @ str serverName
       @ ''/'' @ str serverRegion @ ''?'' @ format_params params @ ''&api_key='' @ api_key w"

definition get_reports_list_user_uri :: "WCL \<Rightarrow> pyval \<Rightarrow> params \<Rightarrow> string" where
  "get_reports_list_user_uri w userName params =
     request_uri w @ ''/reports/user/'' @ str userName @ ''?'' @ format_params params
       @ ''&api_key='' @ api_key w"

definition get_report_list_encounter_uri :: "WCL \<Rightarrow> pyval \<Rightarrow> params \<Rightarrow> string" where
  "get_report_list_encounter_uri w code params =
     request_uri w @ ''/report/fights/'' @ str code @ ''?'' @ format_params params
       @ ''&api_key='' @ api_key w"

definition get_report_list_events_uri :: "WCL \<Rightarrow> pyval \<Rightarrow> pyval \<Rightarrow> params \<Rightarrow> string" where
  "get_report_list_events_uri w view code params =
     request_uri w @ ''/report/events/'' @ str view @ ''/'' @ str code @ ''?''
       @ format_params params @ ''&api_key='' @ api_key w"

definition get_report_list_tables_uri :: "WCL \<Rightarrow> pyval \<Rightarrow> pyval \<Rightarrow> params \<Rightarrow> string" where
  "get_report_list_tables_uri w view code params =
     request_uri w @ ''/report/tables/'' @ str view @ ''/'' @ str code @ ''?''
       @ format_params params @ ''&api_key='' @ api_key w"

subsection \<open>The operations\<close>

text \<open>Each method builds its URI from the attributes of \<open>self\<close> and hands it to
  \<open>make_request\<close>, whose result it returns.\<close>

definition get_zone_list ::
  "('x, 'r, 'y, 'j) requests \<Rightarrow> state \<Rightarrow> (('x, 'y) failure + 'j) \<times> state" where
  "get_zone_list lib s = make_request lib (get_zone_list_uri (self s)) s"

definition get_class_list ::
  "('x, 'r, 'y, 'j) requests \<Rightarrow> state \<Rightarrow> (('x, 'y) failure + 'j) \<times> state" where
  "get_class_list lib s = make_request lib (get_class_list_uri (self s)) s"

definition get_rankings_list_encounter ::
  "('x, 'r, 'y, 'j) requests \<Rightarrow> pyval \<Rightarrow> params \<Rightarrow> state
     \<Rightarrow> (('x, 'y) failure + 'j) \<times> state" where
  "get_rankings_list_encounter lib encounterID params s =
     make_request lib (get_rankings_list_encounter_uri (self s) encounterID params) s"

definition get_rankings_list_character ::
  "('x, 'r, 'y, 'j) requests \<Rightarrow> pyval \<Rightarrow> pyval \<Rightarrow> pyval \<Rightarrow> params \<Rightarrow> state
     \<Rightarrow> (('x, 'y) failure + 'j) \<times> state" where
  "get_rankings_list_character lib characterName serverName serverRegion params s =
     make_request lib
       (get_rankings_list_character_uri (self s) characterName serverName serverRegion params) s"

definition get_parses_list_character ::
  "('x, 'r, 'y, 'j) requests \<Rightarrow> pyval \<Rightarrow> pyval \<Rightarrow> pyval \<Rightarrow> params \<Rightarrow> state
     \<Rightarrow> (('x, 'y) failure + 'j) \<times> state" where
  "get_parses_list_character lib characterName serverName serverRegion params s =
     make_request lib
       (get_parses_list_character_uri (self s) characterName serverName serverRegion params) s"

definition get_reports_list_guild ::
  "('x, 'r, 'y, 'j) requests \<Rightarrow> pyval \<Rightarrow> pyval \<Rightarrow> pyval \<Rightarrow> params \<Rightarrow> state
     \<Rightarrow> (('x, 'y) failure + 'j) \<times> state" where
  "get_reports_list_guild lib guildName serverName serverRegion params s =
     make_request lib
       (get_reports_list_guild_uri (self s) guildName serverName serverRegion params) s"

definition get_reports_list_user ::
  "('x, 'r, 'y, 'j) requests \<Rightarrow> pyval \<Rightarrow> params \<Rightarrow> state
     \<Rightarrow> (('x, 'y) failure + 'j) \<times> state" where
  "get_reports_list_user lib userName params s =
     make_request lib (get_reports_list_user_uri (self s) userName params) s"

definition get_report_list_encounter ::
  "('x, 'r, 'y, 'j) requests \<Rightarrow> pyval \<Rightarrow> params \<Rightarrow> state
     \<Rightarrow> (('x, 'y) failure + 'j) \<times> state" where
  "get_report_list_encounter lib code params s =
     make_request lib (get_report_list_encounter_uri (self s) code params) s"

definition get_report_list_events ::
  "('x, 'r, 'y, 'j) requests \<Rightarrow> pyval \<Rightarrow> pyval \<Rightarrow> params \<Rightarrow> state
     \<Rightarrow> (('x, 'y) failure + 'j) \<times> state" where
  "get_report_list_events lib view code params s =
     make_request lib (get_report_list_events_uri (self s) view code params) s"

definition get_report_list_tables ::
  "('x, 'r, 'y, 'j) requests \<Rightarrow> pyval \<Rightarrow> pyval \<Rightarrow> params \<Rightarrow> state
     \<Rightarrow> (('x, 'y) failure + 'j) \<times> state" where
  "get_report_list_tables lib view code params s =
     make_request lib (get_report_list_tables_uri (self s) view code params) s"

subsection \<open>A call of any operation\<close>

text \<open>
  One constructor per public method, carrying its arguments, so that a statement about
  every operation is a statement about every \<open>call\<close>. An omitted \<open>params\<close> argument
  takes the default \<^verbatim>\<open>{}\<close>, the empty list.
\<close>

datatype call =
    Zone_list
  | Class_list
  | Rankings_list_encounter pyval params
  | Rankings_list_character pyval pyval pyval params
  | Parses_list_character pyval pyval pyval params
  | Reports_list_guild pyval pyval pyval params
  | Reports_list_user pyval params
  | Report_list_encounter pyval params
  | Report_list_events pyval pyval params
  | Report_list_tables pyval pyval params

fun uri_of :: "WCL \<Rightarrow> call \<Rightarrow> string" where
  "uri_of w Zone_list = get_zone_list_uri w"
| "uri_of w Class_list = get_class_list_uri w"
| "uri_of w (Rankings_list_encounter e ps) = get_rankings_list_encounter_uri w e ps"
| "uri_of w (Rankings_list_character c sn sr ps) = get_rankings_list_character_uri w c sn sr ps"
| "uri_of w (Parses_list_character c sn sr ps) = get_parses_list_character_uri w c sn sr ps"
| "uri_of w (Reports_list_guild g sn sr ps) = get_reports_list_guild_uri w g sn sr ps"
| "uri_of w (Reports_list_user u ps) = get_reports_list_user_uri w u ps"
| "uri_of w (Report_list_encounter c ps) = get_report_list_encounter_uri w c ps"
| "uri_of w (Report_list_events v c ps) = get_report_list_events_uri w v c ps"
| "uri_of w (Report_list_tables v c ps) = get_report_list_tables_uri w v c ps"

fun invoke ::
  "('x, 'r, 'y, 'j) requests \<Rightarrow> call \<Rightarrow> state \<Rightarrow> (('x, 'y) failure + 'j) \<times> state" where
  "invoke lib Zone_list s = get_zone_list lib s"
| "invoke lib Class_list s = get_class_list lib s"
| "invoke lib (Rankings_list_encounter e ps) s = get_rankings_list_encounter lib e ps s"
| "invoke lib (Rankings_list_character c sn sr ps) s =
     get_rankings_list_character lib c sn sr ps s"
| "invoke lib (Parses_list_character c sn sr ps) s = get_parses_list_character lib c sn sr ps s"
| "invoke lib (Reports_list_guild g sn sr ps) s = get_reports_list_guild lib g sn sr ps s"
| "invoke lib (Reports_list_user u ps) s = get_reports_list_user lib u ps s"
| "invoke lib (Report_list_encounter c ps) s = get_report_list_encounter lib c ps s"
| "invoke lib (Report_list_events v c ps) s = get_report_list_events lib v c ps s"
| "invoke lib (Report_list_tables v c ps) s = get_report_list_tables lib v c ps s"

text \<open>A sequence of calls on the same client, each starting from the state the
  previous one left; the outcomes are collected in order.\<close>

fun invoke_all ::
  "('x, 'r, 'y, 'j) requests \<Rightarrow> call list \<Rightarrow> state
     \<Rightarrow> (('x, 'y) failure + 'j) list \<times> state" where
  "invoke_all lib [] s = ([], s)"
| "invoke_all lib (c # cs) s =
     (let (r, s') = invoke lib c s; (rs, s'') = invoke_all lib cs s' in (r # rs, s''))"

section \<open>Notions the specification uses\<close>

text \<open>
  The source contains no percent-encoding, no query-string parser and no test stub.
  The definitions of this section are the yardsticks the specification's sentences are
  measured with; none of them is part of the client.
\<close>

subsection \<open>Joining and splitting at a separator\<close>

definition pair_text :: "string \<times> pyval \<Rightarrow> string" where
  "pair_text kv = fst kv @ ''='' @ str (snd kv)"

fun join_with :: "char \<Rightarrow> string list \<Rightarrow> string" where
  "join_with sep [] = []"
| "join_with sep [p] = p"
| "join_with sep (p # q # ps) = p @ sep # join_with sep (q # ps)"

text \<open>The pieces between the separators, empty pieces included: a leading or a
  trailing separator shows as an empty first or last piece.\<close>

fun split_on :: "char \<Rightarrow> string \<Rightarrow> string list" where
  "split_on sep [] = [[]]"
| "split_on sep (c # cs) =
     (if c = sep then [] # split_on sep cs
      else (case split_on sep cs of p # ps \<Rightarrow> (c # p) # ps | [] \<Rightarrow> [[c]]))"

subsection \<open>Percent-encoding (RFC 3986)\<close>

definition unreserved :: "char \<Rightarrow> bool" where
  "unreserved c \<longleftrightarrow>
     (let n = (of_char c :: nat) in
      (65 \<le> n \<and> n \<le> 90) \<or> (97 \<le> n \<and> n \<le> 122) \<or> (48 \<le> n \<and> n \<le> 57)
      \<or> c = CHR ''-'' \<or> c = CHR ''.'' \<or> c = CHR ''_'' \<or> c = CHR ''~'')"

definition hex_digit :: "nat \<Rightarrow> char" where
  "hex_digit d = ''0123456789ABCDEF'' ! d"

definition hex_value :: "char \<Rightarrow> nat option" where
  "hex_value c =
     (let n = (of_char c :: nat) in
      if 48 \<le> n \<and> n \<le> 57 then Some (n - 48)
      else if 65 \<le> n \<and> n \<le> 70 then Some (n - 55)
      else if 97 \<le> n \<and> n \<le> 102 then Some (n - 87)
      else None)"

definition percent_encode_char :: "char \<Rightarrow> string" where
  "percent_encode_char c =
     (if unreserved c then [c]
      else [CHR ''%'', hex_digit (of_char c div 16), hex_digit (of_char c mod 16)])"

definition percent_encode :: "string \<Rightarrow> string" where
  "percent_encode s = concat (map percent_encode_char s)"

text \<open>Decoding replaces every \<open>%\<close> followed by two hexadecimal digits by the byte
  they denote and keeps everything else.\<close>

fun percent_decode :: "string \<Rightarrow> string" where
  "percent_decode [] = []"
| "percent_decode (c # cs) =
     (if c = CHR ''%'' then
        (case cs of
           a # b # rest \<Rightarrow>
             (case (hex_value a, hex_value b) of
                (Some h, Some l) \<Rightarrow> char_of (16 * h + l) # percent_decode rest
              | _ \<Rightarrow> c # percent_decode cs)
         | _ \<Rightarrow> c # percent_decode cs)
      else c # percent_decode cs)"

text \<open>The query string as the specification words it: one pair per entry, the value
  percent-encoded, the pairs joined by \<open>&\<close>.\<close>

definition spec_query_string :: "params \<Rightarrow> string" where
  "spec_query_string ps =
     join_with CHR ''&'' (map (\<lambda>kv. fst kv @ ''='' @ percent_encode (str (snd kv))) ps)"

subsection \<open>The path of a request URI\<close>

text \<open>
  The path is what follows the client's base URL up to the first \<open>?\<close> or \<open>#\<close>; its
  segments are the pieces between the slashes. The path starts with a slash, so the
  first piece is empty.
\<close>

definition path_segments :: "WCL \<Rightarrow> string \<Rightarrow> string list" where
  "path_segments w uri =
     split_on CHR ''/''
       (takeWhile (\<lambda>c. c \<noteq> CHR ''?'' \<and> c \<noteq> CHR ''#'') (drop (length (request_uri w)) uri))"

text \<open>The fixed segments of a call's path template, and the required identifiers
  that fill its slots, in the order of the method's signature.\<close>

fun resource :: "call \<Rightarrow> string list" where
  "resource Zone_list = [''zones'']"
| "resource Class_list = [''classes'']"
| "resource (Rankings_list_encounter e ps) = [''rankings'', ''encounter'']"
| "resource (Rankings_list_character c sn sr ps) = [''rankings'', ''character'']"
| "resource (Parses_list_character c sn sr ps) = [''parses'', ''character'']"
| "resource (Reports_list_guild g sn sr ps) = [''reports'', ''guild'']"
| "resource (Reports_list_user u ps) = [''reports'', ''user'']"
| "resource (Report_list_encounter c ps) = [''report'', ''fights'']"
| "resource (Report_list_events v c ps) = [''report'', ''events'']"
| "resource (Report_list_tables v c ps) = [''report'', ''tables'']"

fun identifiers :: "call \<Rightarrow> pyval list" where
  "identifiers Zone_list = []"
| "identifiers Class_list = []"
| "identifiers (Rankings_list_encounter e ps) = [e]"
| "identifiers (Rankings_list_character c sn sr ps) = [c, sn, sr]"
| "identifiers (Parses_list_character c sn sr ps) = [c, sn, sr]"
| "identifiers (Reports_list_guild g sn sr ps) = [g, sn, sr]"
| "identifiers (Reports_list_user u ps) = [u]"
| "identifiers (Report_list_encounter c ps) = [c]"
| "identifiers (Report_list_events v c ps) = [v, c]"
| "identifiers (Report_list_tables v c ps) = [v, c]"

fun params_of :: "call \<Rightarrow> params" where
  "params_of Zone_list = []"
| "params_of Class_list = []"
| "params_of (Rankings_list_encounter e ps) = ps"
| "params_of (Rankings_list_character c sn sr ps) = ps"
| "params_of (Parses_list_character c sn sr ps) = ps"
| "params_of (Reports_list_guild g sn sr ps) = ps"
| "params_of (Reports_list_user u ps) = ps"
| "params_of (Report_list_encounter c ps) = ps"
| "params_of (Report_list_events v c ps) = ps"
| "params_of (Report_list_tables v c ps) = ps"

text \<open>A path written out from its segments, each preceded by a slash.\<close>

definition path_text :: "string list \<Rightarrow> string" where
  "path_text segs = concat (map (\<lambda>p. CHR ''/'' # p) segs)"

text \<open>An identifier text that needs no encoding to stay one path segment.\<close>

definition plain_segment :: "string \<Rightarrow> bool" where
  "plain_segment t \<longleftrightarrow> list_all (\<lambda>c. c \<notin> set ''%/?#'') t"

subsection \<open>The scenario client and a stubbed transport\<close>

definition host_client :: WCL where
  "host_client = \<lparr>request_uri = ''https://host/v1'', api_key = ''KEY123''\<rparr>"

definition fresh :: "WCL \<Rightarrow> state" where
  "fresh w = \<lparr>self = w, issued = []\<rparr>"

text \<open>
  A stub in place of the library: it answers one URL with a fixed body and refuses
  every other; its decoder knows the three JSON literals and rejects any other body.
\<close>

definition stub_json :: "string \<Rightarrow> string + pyval" where
  "stub_json body =
     (if body = ''null'' then Inr PyNone
      else if body = ''true'' then Inr (PyBool True)
      else if body = ''false'' then Inr (PyBool False)
      else Inl ''JSONDecodeError'')"

definition stub_requests :: "string \<Rightarrow> string \<Rightarrow> (string, string, string, pyval) requests" where
  "stub_requests url body =
     \<lparr>get = (\<lambda>uri. if uri = url then Inr body else Inl ''ConnectionError''), json = stub_json\<rparr>"

section \<open>Facts about the query string\<close>

lemma format_params_loop_acc:
  "format_params_loop acc ps = acc @ concat (map (\<lambda>kv. CHR ''&'' # pair_text kv) ps)"
  by (induction ps arbitrary: acc) (auto simp: pair_text_def)

lemma drop_1_concat_sep: "drop 1 (concat (map (\<lambda>p. sep # p) ps)) = join_with sep ps"
  by (induction ps rule: join_with.induct) auto

lemma format_params_join: "format_params ps = join_with CHR ''&'' (map pair_text ps)"
  by (simp add: format_params_def format_params_loop_acc drop_1_concat_sep[symmetric] comp_def)

lemma format_params_empty: "format_params [] = []"
  by (simp add: format_params_def)

lemma split_on_no_sep: "sep \<notin> set p \<Longrightarrow> split_on sep p = [p]"
  by (induction p) (auto split: list.splits)

lemma split_on_append: "sep \<notin> set p \<Longrightarrow> split_on sep (p @ sep # rest) = p # split_on sep rest"
  by (induction p) (auto split: list.splits)

lemma split_on_join:
  "ps \<noteq> [] \<Longrightarrow> \<forall>p\<in>set ps. sep \<notin> set p \<Longrightarrow> split_on sep (join_with sep ps) = ps"
  by (induction ps rule: join_with.induct) (auto simp: split_on_no_sep split_on_append)

section \<open>Facts about percent-encoding\<close>

lemma percent_decode_no_percent: "CHR ''%'' \<notin> set s \<Longrightarrow> percent_decode s = s"
  by (induction s) auto

lemma percent_encode_unreserved: "list_all unreserved s \<Longrightarrow> percent_encode s = s"
  by (induction s) (auto simp: percent_encode_def percent_encode_char_def)

lemma hex_value_digit: "d < 16 \<Longrightarrow> hex_value (hex_digit d) = Some d"
proof -
  have all: "\<forall>d \<in> set [0..<16]. hex_value (hex_digit d) = Some d"
    by code_simp
  assume "d < 16"
  then have "d \<in> set [0..<16]" by simp
  with all show ?thesis by blast
qed

lemma unreserved_not_percent: "unreserved c \<Longrightarrow> c \<noteq> CHR ''%''"
  by (auto simp: unreserved_def)

lemma of_char_bound: "(of_char c :: nat) < 256"
proof -
  have "(of_char c :: nat) mod 256 < 256" by (rule mod_less_divisor) simp
  then show ?thesis by (simp only: of_char_mod_256)
qed

text \<open>The two yardsticks fit each other: decoding undoes encoding.\<close>

lemma percent_decode_encode: "percent_decode (percent_encode s) = s"
proof (induction s)
  case Nil
  show ?case by (simp add: percent_encode_def)
next
  case (Cons c s)
  have hi: "(of_char c :: nat) div 16 < 16"
    using of_char_bound[of c] by (simp add: less_mult_imp_div_less)
  have lo: "(of_char c :: nat) mod 16 < 16" by simp
  have byte: "char_of (16 * ((of_char c :: nat) div 16) + of_char c mod 16) = c"
    by simp
  show ?case
  proof (cases "unreserved c")
    case True
    then show ?thesis using Cons unreserved_not_percent[OF True]
      by (simp add: percent_encode_def percent_encode_char_def)
  next
    case False
    then show ?thesis using Cons
      by (simp add: percent_encode_def percent_encode_char_def hex_value_digit[OF hi]
            hex_value_digit[OF lo] byte del: mult_div_mod_eq)
  qed
qed

section \<open>Facts about the operations\<close>


lemma self_make_request: "self (snd (make_request lib uri s)) = self s"
  by (simp add: make_request_def Let_def split: sum.splits)

lemma fst_make_request:
  "fst (make_request lib uri s) =
     (case get lib uri of
        Inl x \<Rightarrow> Inl (Get_raised x)
      | Inr r \<Rightarrow> (case json lib r of Inl y \<Rightarrow> Inl (Json_raised y) | Inr v \<Rightarrow> Inr v))"
  by (simp add: make_request_def Let_def split: sum.splits)

text \<open>Every operation is one \<open>make_request\<close> on its own URI.\<close>

lemma invoke_make_request: "invoke lib c s = make_request lib (uri_of (self s) c) s"
  by (cases c)
    (simp_all add: get_zone_list_def get_class_list_def get_rankings_list_encounter_def
      get_rankings_list_character_def get_parses_list_character_def get_reports_list_guild_def
      get_reports_list_user_def get_report_list_encounter_def get_report_list_events_def
      get_report_list_tables_def)

lemma self_invoke: "self (snd (invoke lib c s)) = self s"
  by (simp add: invoke_make_request self_make_request)

lemma self_invoke_all: "self (snd (invoke_all lib cs s)) = self s"
proof (induction cs arbitrary: s)
  case Nil
  show ?case by simp
next
  case (Cons c cs)
  obtain r s1 where step: "invoke lib c s = (r, s1)" by (cases "invoke lib c s")
  obtain rs s2 where rest: "invoke_all lib cs s1 = (rs, s2)" by (cases "invoke_all lib cs s1")
  have "self s2 = self s1" using Cons.IH[of s1] rest by simp
  moreover have "self s1 = self s" using self_invoke[of lib c s] step by simp
  ultimately show ?case by (simp add: step rest)
qed

lemmas uri_defs =
  get_zone_list_uri_def get_class_list_uri_def get_rankings_list_encounter_uri_def
  get_rankings_list_character_uri_def get_parses_list_character_uri_def
  get_reports_list_guild_uri_def get_reports_list_user_uri_def
  get_report_list_encounter_uri_def get_report_list_events_uri_def
  get_report_list_tables_uri_def

text \<open>Every operation that takes identifiers builds a URI of one shape.\<close>

lemma uri_of_shape:
  "identifiers c \<noteq> [] \<Longrightarrow>
     uri_of w c = request_uri w @ path_text (resource c @ map str (identifiers c)) @ ''?''
       @ format_params (params_of c) @ ''&api_key='' @ api_key w"
  by (cases c) (simp_all add: uri_defs path_text_def)

lemma plain_segment_iff:
  "plain_segment t \<longleftrightarrow>
     CHR ''%'' \<notin> set t \<and> CHR ''/'' \<notin> set t \<and> CHR ''?'' \<notin> set t \<and> CHR ''#'' \<notin> set t"
  by (auto simp: plain_segment_def list_all_iff)

lemma resource_plain: "list_all plain_segment (resource c)"
  by (cases c) (simp_all add: plain_segment_def)

lemma split_on_nonempty: "split_on sep s \<noteq> []"
  by (induction s) (auto split: list.splits)

lemma split_on_prefix:
  "sep \<notin> set p \<Longrightarrow>
     split_on sep (p @ q) = (p @ hd (split_on sep q)) # tl (split_on sep q)"
  by (induction p) (auto simp: split_on_nonempty split: list.splits)

lemma split_on_path_text:
  "list_all (\<lambda>p. CHR ''/'' \<notin> set p) segs \<Longrightarrow> split_on CHR ''/'' (path_text segs) = [] # segs"
proof (induction segs)
  case Nil
  show ?case by (simp add: path_text_def)
next
  case (Cons p segs)
  then have rest: "split_on CHR ''/'' (path_text segs) = [] # segs" and p: "CHR ''/'' \<notin> set p"
    by simp_all
  have "path_text (p # segs) = CHR ''/'' # (p @ path_text segs)"
    by (simp add: path_text_def)
  then show ?case
    by (simp add: split_on_prefix[OF p] rest)
qed

lemma takeWhile_path_text:
  assumes "list_all plain_segment segs"
  shows "takeWhile (\<lambda>c. c \<noteq> CHR ''?'' \<and> c \<noteq> CHR ''#'') (path_text segs @ CHR ''?'' # rest)
           = path_text segs"
proof -
  have "\<forall>c\<in>set (path_text segs). c \<noteq> CHR ''?'' \<and> c \<noteq> CHR ''#''"
    using assms by (auto simp: path_text_def list_all_iff plain_segment_iff)
  then show ?thesis by simp
qed

lemma path_segments_of_call:
  assumes ids: "identifiers c \<noteq> []" and plain: "list_all plain_segment (map str (identifiers c))"
  shows "path_segments w (uri_of w c) = [] # resource c @ map str (identifiers c)"
proof -
  let ?segs = "resource c @ map str (identifiers c)"
  have all_plain: "list_all plain_segment ?segs"
    using plain resource_plain[of c] by simp
  then have no_slash: "list_all (\<lambda>p. CHR ''/'' \<notin> set p) ?segs"
    by (simp add: list_all_iff plain_segment_iff)
  have "path_segments w (uri_of w c) =
          split_on CHR ''/'' (takeWhile (\<lambda>c. c \<noteq> CHR ''?'' \<and> c \<noteq> CHR ''#'')
            (path_text ?segs @ CHR ''?'' # format_params (params_of c) @ ''&api_key='' @ api_key w))"
    by (simp add: path_segments_def uri_of_shape[OF ids])
  also have "\<dots> = split_on CHR ''/'' (path_text ?segs)"
    by (simp only: takeWhile_path_text[OF all_plain])
  also have "\<dots> = [] # ?segs"
    by (rule split_on_path_text[OF no_slash])
  finally show ?thesis .
qed

lemma percent_decode_plain: "list_all plain_segment ts \<Longrightarrow> map percent_decode ts = ts"
  by (induction ts) (simp_all add: plain_segment_iff percent_decode_no_percent)

section \<open>The claims\<close>

subsection \<open>C1: the query string\<close>

text \<open>
  C1, as stated, asks for percent-encoded values. \<open>format_params\<close> inserts
  \<^verbatim>\<open>str(value)\<close> as it is: a value with a space stays \<open>a b\<close>, where the
  specification's query string has \<open>a%20b\<close>.
\<close>

theorem format_params_value_not_encoded:
  "format_params [(''filter'', PyStr ''a b'')] = ''filter=a b''
   \<and> spec_query_string [(''filter'', PyStr ''a b'')] = ''filter=a%20b''
   \<and> format_params [(''filter'', PyStr ''a b'')] \<noteq> spec_query_string [(''filter'', PyStr ''a b'')]"
  by code_simp

text \<open>
  C1, amended. For every optional-parameter mapping the query string is the entries'
  pairs \<open>key=str(value)\<close>, one per entry and in insertion order, joined by a single
  \<open>&\<close>, with the value text inserted verbatim and not percent-encoded. It is the
  specification's query string whenever every value text consists of unreserved
  characters (which need no encoding). Whenever the mapping is not empty and no key and
  no value text contains \<open>&\<close>, splitting it at \<open>&\<close> gives back exactly the pairs, so it
  has no leading and no trailing \<open>&\<close>.
\<close>

theorem format_params_pairs:
  "format_params ps = join_with CHR ''&'' (map pair_text ps)
   \<and> (list_all (\<lambda>kv. list_all unreserved (str (snd kv))) ps
        \<longrightarrow> format_params ps = spec_query_string ps)
   \<and> (ps \<noteq> [] \<and> list_all (\<lambda>kv. CHR ''&'' \<notin> set (pair_text kv)) ps
        \<longrightarrow> split_on CHR ''&'' (format_params ps) = map pair_text ps)"
proof (intro conjI impI)
  show "format_params ps = join_with CHR ''&'' (map pair_text ps)"
    by (rule format_params_join)
next
  assume "list_all (\<lambda>kv. list_all unreserved (str (snd kv))) ps"
  then have "map (\<lambda>kv. fst kv @ ''='' @ percent_encode (str (snd kv))) ps = map pair_text ps"
    by (induction ps) (simp_all add: pair_text_def percent_encode_unreserved)
  then show "format_params ps = spec_query_string ps"
    by (simp only: format_params_join spec_query_string_def)
next
  assume "ps \<noteq> [] \<and> list_all (\<lambda>kv. CHR ''&'' \<notin> set (pair_text kv)) ps"
  then have "map pair_text ps \<noteq> []" and "\<forall>p\<in>set (map pair_text ps). CHR ''&'' \<notin> set p"
    by (simp_all add: list_all_iff)
  then have "split_on CHR ''&'' (join_with CHR ''&'' (map pair_text ps)) = map pair_text ps"
    by (rule split_on_join)
  then show "split_on CHR ''&'' (format_params ps) = map pair_text ps"
    by (simp only: format_params_join)
qed

theorem format_params_pairs_witness:
  "list_all (\<lambda>kv. list_all unreserved (str (snd kv)))
     [(''metric'', PyStr ''dps''), (''class'', PyInt 11)]
   \<and> [(''metric'', PyStr ''dps''), (''class'', PyInt 11)] \<noteq> []
   \<and> list_all (\<lambda>kv. CHR ''&'' \<notin> set (pair_text kv))
       [(''metric'', PyStr ''dps''), (''class'', PyInt 11)]
   \<and> format_params [(''metric'', PyStr ''dps''), (''class'', PyInt 11)]
       = spec_query_string [(''metric'', PyStr ''dps''), (''class'', PyInt 11)]
   \<and> split_on CHR ''&'' (format_params [(''metric'', PyStr ''dps''), (''class'', PyInt 11)])
       = map pair_text [(''metric'', PyStr ''dps''), (''class'', PyInt 11)]"
proof -
  let ?ps = "[(''metric'', PyStr ''dps''), (''class'', PyInt 11)]"
  have h1: "list_all (\<lambda>kv. list_all unreserved (str (snd kv))) ?ps"
    by code_simp
  have h2: "?ps \<noteq> []" by simp
  have h3: "list_all (\<lambda>kv. CHR ''&'' \<notin> set (pair_text kv)) ?ps"
    by code_simp
  show ?thesis
    using format_params_pairs[of ?ps] h1 h2 h3 by blast
qed

subsection \<open>C2: identifiers in the path\<close>

text \<open>
  C2, as stated, asks that percent-decoding the path segment of an identifier gives the
  identifier back. The guild name \<open>50%25\<close> is interpolated as it is, so the segment
  is \<open>50%25\<close> and decodes to \<open>50%\<close>.
\<close>

theorem path_segment_round_trip_fails:
  "percent_decode
     (path_segments host_client
        (get_reports_list_guild_uri host_client (PyStr ''50%25'') (PyStr ''herod'') (PyStr ''US'') [])
      ! 3) \<noteq> ''50%25''"
  by code_simp

text \<open>
  C2, amended. No operation percent-encodes an identifier: the text of each required
  identifier is interpolated verbatim. For every call whose identifier texts contain
  none of \<open>%\<close>, \<open>/\<close>, \<open>?\<close> and \<open>#\<close> (spaces are allowed), the path of the URI
  consists of the segments of the template followed by one segment per identifier, that
  segment being the identifier text itself, and percent-decoding it yields the
  identifier text.
\<close>

theorem path_segments_verbatim:
  "identifiers c \<noteq> [] \<Longrightarrow> list_all plain_segment (map str (identifiers c)) \<Longrightarrow>
     path_segments w (uri_of w c) = [] # resource c @ map str (identifiers c)
     \<and> map percent_decode (map str (identifiers c)) = map str (identifiers c)"
proof
  assume ids: "identifiers c \<noteq> []" and plain: "list_all plain_segment (map str (identifiers c))"
  show "path_segments w (uri_of w c) = [] # resource c @ map str (identifiers c)"
    using ids plain by (rule path_segments_of_call)
  show "map percent_decode (map str (identifiers c)) = map str (identifiers c)"
    using plain by (rule percent_decode_plain)
qed

theorem path_segments_verbatim_witness:
  "identifiers (Reports_list_guild (PyStr ''not like this'') (PyStr ''herod'') (PyStr ''US'') []) \<noteq> []
   \<and> list_all plain_segment (map str
        (identifiers (Reports_list_guild (PyStr ''not like this'') (PyStr ''herod'') (PyStr ''US'') [])))
   \<and> path_segments host_client
        (uri_of host_client
           (Reports_list_guild (PyStr ''not like this'') (PyStr ''herod'') (PyStr ''US'') []))
       = ['''', ''reports'', ''guild'', ''not like this'', ''herod'', ''US'']
   \<and> map percent_decode [''not like this'', ''herod'', ''US''] = [''not like this'', ''herod'', ''US'']"
proof -
  let ?c = "Reports_list_guild (PyStr ''not like this'') (PyStr ''herod'') (PyStr ''US'') []"
  have h1: "identifiers ?c \<noteq> []" by simp
  have h2: "list_all plain_segment (map str (identifiers ?c))"
    by (simp add: plain_segment_def)
  show ?thesis
    using path_segments_verbatim[OF h1 h2, of host_client] h1 h2 by simp
qed

subsection \<open>C3: the shape of the request URI\<close>

text \<open>
  C3. The eight operations that take identifiers build base URL, path, \<open>?\<close>, query
  string and \<open>&api_key=\<close> with the key (lemma \<open>uri_of_shape\<close>). The two operations
  without parameters do not: their templates go from the path straight to
  \<open>&api_key=\<close>, so the URI of list zones and of list classes has no \<open>?\<close> separator
  at all and differs from the URI the claim describes.
\<close>

theorem zone_and_class_list_lack_separator:
  "get_zone_list_uri host_client = ''https://host/v1/zones&api_key=KEY123''
   \<and> get_class_list_uri host_client = ''https://host/v1/classes&api_key=KEY123''
   \<and> get_zone_list_uri host_client
        \<noteq> request_uri host_client @ ''/zones'' @ ''?'' @ format_params [] @ ''&api_key=''
            @ api_key host_client
   \<and> get_class_list_uri host_client
        \<noteq> request_uri host_client @ ''/classes'' @ ''?'' @ format_params [] @ ''&api_key=''
            @ api_key host_client
   \<and> CHR ''?'' \<notin> set (get_zone_list_uri host_client)
   \<and> CHR ''?'' \<notin> set (get_class_list_uri host_client)"
  by (simp add: get_zone_list_uri_def get_class_list_uri_def host_client_def format_params_empty)

subsection \<open>C4: empty identifiers\<close>



subsection \<open>C5: rankings by encounter, the scenario\<close>

text \<open>
  C5. With base URL \<open>https://host/v1\<close> and key \<open>KEY123\<close>, rankings by encounter
  for encounter 611 and the parameters metric = dps, class = 11 (in this order) builds
  exactly the URI of the claim, requests it and nothing else, and returns the value the
  transport's body decodes to.
\<close>

theorem rankings_encounter_scenario:
  assumes "get lib ''https://host/v1/rankings/encounter/611?metric=dps&class=11&api_key=KEY123''
             = Inr response"
    and "json lib response = Inr body"
  shows "get_rankings_list_encounter_uri host_client (PyInt 611)
           [(''metric'', PyStr ''dps''), (''class'', PyInt 11)]
         = ''https://host/v1/rankings/encounter/611?metric=dps&class=11&api_key=KEY123''
       \<and> get_rankings_list_encounter lib (PyInt 611)
           [(''metric'', PyStr ''dps''), (''class'', PyInt 11)] (fresh host_client)
         = (Inr body, \<lparr>self = host_client, issued =
             [''https://host/v1/rankings/encounter/611?metric=dps&class=11&api_key=KEY123'']\<rparr>)"
proof -
  have uri: "get_rankings_list_encounter_uri host_client (PyInt 611)
           [(''metric'', PyStr ''dps''), (''class'', PyInt 11)]
         = ''https://host/v1/rankings/encounter/611?metric=dps&class=11&api_key=KEY123''"
    by code_simp
  show ?thesis
    using assms by (simp add: get_rankings_list_encounter_def make_request_def fresh_def uri)
qed

theorem rankings_encounter_scenario_witness:
  "get (stub_requests
          ''https://host/v1/rankings/encounter/611?metric=dps&class=11&api_key=KEY123'' ''true'')
      ''https://host/v1/rankings/encounter/611?metric=dps&class=11&api_key=KEY123'' = Inr ''true''
   \<and> json (stub_requests
          ''https://host/v1/rankings/encounter/611?metric=dps&class=11&api_key=KEY123'' ''true'')
      ''true'' = Inr (PyBool True)
   \<and> fst (get_rankings_list_encounter
        (stub_requests
           ''https://host/v1/rankings/encounter/611?metric=dps&class=11&api_key=KEY123'' ''true'')
        (PyInt 611) [(''metric'', PyStr ''dps''), (''class'', PyInt 11)] (fresh host_client))
      = Inr (PyBool True)"
proof -
  let ?url = "''https://host/v1/rankings/encounter/611?metric=dps&class=11&api_key=KEY123''"
  have h1: "get (stub_requests ?url ''true'') ?url = Inr ''true''"
    by (simp add: stub_requests_def)
  have h2: "json (stub_requests ?url ''true'') ''true'' = Inr (PyBool True)"
    by (simp add: stub_requests_def stub_json_def)
  show ?thesis
    using rankings_encounter_scenario[OF h1 h2] h1 h2 by simp
qed

subsection \<open>C6: reports by guild, the scenario\<close>

text \<open>
  C6, as stated, expects \<open>not%20like%20this\<close> in the path and \<open>?api_key=\<close> after
  it. The URI built has the guild name with its spaces and an \<open>&\<close> between \<open>?\<close> and
  \<open>api_key\<close>; it does not end as the claim says.
\<close>

theorem reports_guild_scenario_differs:
  "\<not> suffix ''/reports/guild/not%20like%20this/herod/US?api_key=KEY123''
       (get_reports_list_guild_uri host_client
          (PyStr ''not like this'') (PyStr ''herod'') (PyStr ''US'') [])"
  by code_simp

text \<open>
  C6, amended. Reports by guild with guild name \<open>not like this\<close>, server \<open>herod\<close>,
  region \<open>US\<close> and the empty parameter mapping interpolates the guild name verbatim,
  spaces included, and builds the base URL followed by
  \<open>/reports/guild/not like this/herod/US?&api_key=KEY123\<close>: the empty query string
  leaves \<open>?\<close> directly followed by \<open>&api_key=\<close>.
\<close>

theorem reports_guild_scenario:
  "get_reports_list_guild_uri \<lparr>request_uri = base, api_key = ''KEY123''\<rparr>
     (PyStr ''not like this'') (PyStr ''herod'') (PyStr ''US'') []
   = base @ ''/reports/guild/not like this/herod/US?&api_key=KEY123''"
  by (simp add: get_reports_list_guild_uri_def format_params_empty)

subsection \<open>C7: the decoded body is returned unchanged\<close>

text \<open>
  C7. For every call of every operation: when the transport answers the call's URI with
  a response and that response decodes to a JSON value, the operation returns exactly
  that value.
\<close>

theorem decoded_body_passed_through:
  "get lib (uri_of (self s) c) = Inr response \<Longrightarrow> json lib response = Inr v \<Longrightarrow>
     fst (invoke lib c s) = Inr v"
  by (simp add: invoke_make_request fst_make_request)

theorem decoded_body_passed_through_witness:
  "get (stub_requests ''https://host/v1/zones&api_key=KEY123'' ''null'')
      (uri_of (self (fresh host_client)) Zone_list) = Inr ''null''
   \<and> json (stub_requests ''https://host/v1/zones&api_key=KEY123'' ''null'') ''null'' = Inr PyNone
   \<and> fst (invoke (stub_requests ''https://host/v1/zones&api_key=KEY123'' ''null'') Zone_list
        (fresh host_client)) = Inr PyNone"
proof -
  let ?lib = "stub_requests ''https://host/v1/zones&api_key=KEY123'' ''null''"
  have h1: "get ?lib (uri_of (self (fresh host_client)) Zone_list) = Inr ''null''"
    by (simp add: stub_requests_def fresh_def host_client_def get_zone_list_uri_def)
  have h2: "json ?lib ''null'' = Inr PyNone"
    by (simp add: stub_requests_def stub_json_def)
  show ?thesis
    using decoded_body_passed_through[OF h1 h2] h1 h2 by simp
qed

subsection \<open>C8: a body that is not JSON\<close>



subsection \<open>C9: the client's attributes never change\<close>

text \<open>
  C9. No operation writes to the client: after any call, and after any sequence of
  calls, the base URL and the secret key are what they were before.
\<close>

theorem attributes_unchanged:
  "request_uri (self (snd (invoke lib c s))) = request_uri (self s)
   \<and> api_key (self (snd (invoke lib c s))) = api_key (self s)
   \<and> request_uri (self (snd (invoke_all lib cs s))) = request_uri (self s)
   \<and> api_key (self (snd (invoke_all lib cs s))) = api_key (self s)"
  by (simp only: self_invoke self_invoke_all simp_thms)

subsection \<open>C10: the empty parameter mapping\<close>

text \<open>
  C10. The empty mapping is formatted to the empty string, so each of the eight
  operations that take a parameter mapping builds, for the empty mapping, a URI in
  which \<open>?\<close> is directly followed by \<open>&api_key=\<close> and the secret key.
\<close>

theorem empty_params_leave_ampersand:
  "format_params [] = ''''
   \<and> get_rankings_list_encounter_uri w e []
       = request_uri w @ ''/rankings/encounter/'' @ str e @ ''?&api_key='' @ api_key w
   \<and> get_rankings_list_character_uri w ch sn sr []
       = request_uri w @ ''/rankings/character/'' @ str ch @ ''/'' @ str sn @ ''/'' @ str sr
           @ ''?&api_key='' @ api_key w
   \<and> get_parses_list_character_uri w ch sn sr []
       = request_uri w @ ''/parses/character/'' @ str ch @ ''/'' @ str sn @ ''/'' @ str sr
           @ ''?&api_key='' @ api_key w
   \<and> get_reports_list_guild_uri w g sn sr []
       = request_uri w @ ''/reports/guild/'' @ str g @ ''/'' @ str sn @ ''/'' @ str sr
           @ ''?&api_key='' @ api_key w
   \<and> get_reports_list_user_uri w u []
       = request_uri w @ ''/reports/user/'' @ str u @ ''?&api_key='' @ api_key w
   \<and> get_report_list_encounter_uri w code []
       = request_uri w @ ''/report/fights/'' @ str code @ ''?&api_key='' @ api_key w
   \<and> get_report_list_events_uri w view code []
       = request_uri w @ ''/report/events/'' @ str view @ ''/'' @ str code
           @ ''?&api_key='' @ api_key w
   \<and> get_report_list_tables_uri w view code []
       = request_uri w @ ''/report/tables/'' @ str view @ ''/'' @ str code
           @ ''?&api_key='' @ api_key w"
  by (simp add: uri_defs format_params_empty)

end
